theory Spec2Isabelle
  imports Main
begin

section \<open>JavaScript values and the built-ins the component calls\<close>

text \<open>
  The component \<^verbatim>\<open>NodeModal\<close> (src/features/modals/NodeModal/index.tsx) works on
  parsed JSON. A value is one of the JavaScript kinds a JSON document, a row of a node
  or a property read can produce. Numbers are IEEE doubles in JavaScript; the model is
  polymorphic in the number type \<open>'n\<close>, so nothing proved below depends on an
  arithmetic of numbers. An object is the list of its own properties in property order.
\<close>

datatype 'n jsv =
    JUndefined
  | JNull
  | JBool bool
  | JNum 'n
  | JStr string
  | JArr "'n jsv list"
  | JObj "(string \<times> 'n jsv) list"

datatype js_error = SyntaxError | TypeError

text \<open>
  \<^verbatim>\<open>JSON.parse\<close>, \<^verbatim>\<open>JSON.stringify(v, null, 2)\<close> and the number-to-string
  conversion are built-ins of the language, not code of the repository. Every function
  of the component takes them as the record \<open>B\<close>; \<open>JSON_parse B s = None\<close> is the
  \<^verbatim>\<open>SyntaxError\<close> that \<^verbatim>\<open>JSON.parse\<close> throws. \<open>Builtin_has B v k\<close> says
  whether the runtime finds the property \<open>k\<close> on the value \<open>v\<close> beyond the JSON
  members of \<open>v\<close>: \<^verbatim>\<open>length\<close> of an array or a string, or a property of the
  prototype chain (\<^verbatim>\<open>constructor\<close>, \<^verbatim>\<open>toString\<close>, \<^verbatim>\<open>__proto__\<close>, ...).
\<close>

record 'n builtins =
  JSON_parse :: "string \<Rightarrow> 'n jsv option"
  JSON_stringify :: "'n jsv \<Rightarrow> string"
  Number_toString :: "'n \<Rightarrow> string"
  Builtin_has :: "'n jsv \<Rightarrow> string \<Rightarrow> bool"

subsection \<open>Decimal text of integers\<close>

definition digit_char :: "nat \<Rightarrow> char" where
  "digit_char d = ''0123456789'' ! d"

fun nat_str :: "nat \<Rightarrow> string" where
  "nat_str n = (if n < 10 then [digit_char n] else nat_str (n div 10) @ [digit_char (n mod 10)])"

declare nat_str.simps [simp del]

definition int_str :: "int \<Rightarrow> string" where
  "int_str i = (if i < 0 then CHR ''-'' # nat_str (nat (- i)) else nat_str (nat i))"

definition digit_value :: "char \<Rightarrow> nat option" where
  "digit_value c =
     (if c \<in> set ''0123456789''
      then Some (length (takeWhile (\<lambda>d. d \<noteq> c) ''0123456789''))
      else None)"

fun digits_value :: "nat \<Rightarrow> string \<Rightarrow> nat option" where
  "digits_value acc [] = Some acc"
| "digits_value acc (c # cs) =
     (case digit_value c of None \<Rightarrow> None | Some d \<Rightarrow> digits_value (10 * acc + d) cs)"

text \<open>
  A property key names an array element when it is the canonical decimal text of an
  integer below \<open>2^32 - 1\<close>: no sign, no leading zero.
\<close>

definition array_index :: "string \<Rightarrow> nat option" where
  "array_index k =
     (if k = [] \<or> (length k > 1 \<and> hd k = CHR ''0'') then None
      else (case digits_value 0 k of
              None \<Rightarrow> None
            | Some n \<Rightarrow> if n < 4294967295 then Some n else None))"

subsection \<open>Property reads and writes\<close>

text \<open>
  A path segment is a string (object key) or a number (array index); jsonc-parser's
  \<^verbatim>\<open>JSONPath\<close> is \<^verbatim>\<open>(string | number)[]\<close>. Indices are integers here.
\<close>

datatype seg = Key string | Idx int

definition seg_index :: "seg \<Rightarrow> nat option" where
  "seg_index s =
     (case s of
        Key k \<Rightarrow> array_index k
      | Idx i \<Rightarrow> if 0 \<le> i \<and> i < 4294967295 then Some (nat i) else None)"

definition seg_key :: "seg \<Rightarrow> string" where
  "seg_key s = (case s of Key k \<Rightarrow> k | Idx i \<Rightarrow> int_str i)"

text \<open>
  \<^verbatim>\<open>v[s]\<close> as an expression. Reading a property of \<^verbatim>\<open>null\<close> or
  \<^verbatim>\<open>undefined\<close> throws a TypeError; every other read returns, with
  \<^verbatim>\<open>undefined\<close> for a property that is not there. \<open>js_get\<close> reads the JSON
  members only: the members of an object, the elements of an array, the characters of
  a string. It agrees with JavaScript on every read of a member and on every read of a
  key that the runtime does not find either (\<open>Builtin_has\<close>); for \<^verbatim>\<open>length\<close> and
  the inherited properties it returns \<^verbatim>\<open>undefined\<close> where JavaScript returns the
  property. \<open>is_member\<close> and \<open>own_reads\<close> below say when a read, and a walk, stay
  within the members.
\<close>

definition js_get :: "'n jsv \<Rightarrow> seg \<Rightarrow> js_error + 'n jsv" where
  "js_get v s =
     (case v of
        JUndefined \<Rightarrow> Inl TypeError
      | JNull \<Rightarrow> Inl TypeError
      | JBool b \<Rightarrow> Inr JUndefined
      | JNum n \<Rightarrow> Inr JUndefined
      | JStr cs \<Rightarrow>
          (case seg_index s of
             None \<Rightarrow> Inr JUndefined
           | Some i \<Rightarrow> Inr (if i < length cs then JStr [cs ! i] else JUndefined))
      | JArr xs \<Rightarrow>
          (case seg_index s of
             None \<Rightarrow> Inr JUndefined
           | Some i \<Rightarrow> Inr (if i < length xs then xs ! i else JUndefined))
      | JObj ps \<Rightarrow>
          (case map_of ps (seg_key s) of
             None \<Rightarrow> Inr JUndefined
           | Some x \<Rightarrow> Inr x))"

text \<open>
  Writing a member of an object replaces the value of an existing key where it stands
  and appends a new key. (JavaScript lists integer-like keys before the others; that
  reordering is not modelled, and no statement below depends on the order of keys.
  \<open>obj_put\<close> is the write of a member; where the code assigns to a key of an
  object literal, \<open>literal_put\<close> and \<open>buffer_put\<close> below add the accessor
  \<^verbatim>\<open>__proto__\<close>.)
\<close>

fun obj_put :: "string \<Rightarrow> 'v \<Rightarrow> (string \<times> 'v) list \<Rightarrow> (string \<times> 'v) list" where
  "obj_put k v [] = [(k, v)]"
| "obj_put k v (p # ps) = (if fst p = k then (k, v) # ps else p # obj_put k v ps)"

text \<open>Writing past the end of an array leaves holes, which read as \<^verbatim>\<open>undefined\<close>.\<close>

definition arr_put :: "nat \<Rightarrow> 'n jsv \<Rightarrow> 'n jsv list \<Rightarrow> 'n jsv list" where
  "arr_put i v xs =
     (if i < length xs then xs[i := v]
      else xs @ replicate (i - length xs) JUndefined @ [v])"

text \<open>
  \<^verbatim>\<open>v[s] = x\<close> as a statement. The file is an ES module, hence strict code: assigning
  a property of a primitive throws a TypeError, as it does for \<^verbatim>\<open>null\<close> and
  \<^verbatim>\<open>undefined\<close>. A key of an array that is no index becomes a property that
  \<^verbatim>\<open>JSON.stringify\<close> does not see: the array as JSON data is unchanged
  (\<^verbatim>\<open>length\<close>, which resizes the array, is not modelled). The keys written into a
  document are the last segment of a path, which names a member of the document the
  path was taken from, and the keys of the buffer, among which seeding never puts
  \<^verbatim>\<open>__proto__\<close> (\<open>buffer_put\<close>); the accessor is not modelled for these writes.
\<close>

definition js_set :: "'n jsv \<Rightarrow> seg \<Rightarrow> 'n jsv \<Rightarrow> js_error + 'n jsv" where
  "js_set v s x =
     (case v of
        JObj ps \<Rightarrow> Inr (JObj (obj_put (seg_key s) x ps))
      | JArr xs \<Rightarrow>
          (case seg_index s of
             None \<Rightarrow> Inr (JArr xs)
           | Some i \<Rightarrow> Inr (JArr (arr_put i x xs)))
      | _ \<Rightarrow> Inl TypeError)"

text \<open>\<^verbatim>\<open>typeof v === 'object' && v !== null\<close>\<close>

definition is_object :: "'n jsv \<Rightarrow> bool" where
  "is_object v = (case v of JObj ps \<Rightarrow> True | JArr xs \<Rightarrow> True | _ \<Rightarrow> False)"

text \<open>The segment names a JSON member of the value.\<close>

definition is_member :: "'n jsv \<Rightarrow> seg \<Rightarrow> bool" where
  "is_member v s =
     (case v of
        JObj ps \<Rightarrow> map_of ps (seg_key s) \<noteq> None
      | JArr xs \<Rightarrow> (case seg_index s of None \<Rightarrow> False | Some i \<Rightarrow> i < length xs)
      | JStr cs \<Rightarrow> (case seg_index s of None \<Rightarrow> False | Some i \<Rightarrow> i < length cs)
      | _ \<Rightarrow> False)"

text \<open>
  The read \<^verbatim>\<open>v[s]\<close> is one on which \<open>js_get\<close> and JavaScript agree: of a member,
  or of a key the runtime does not find on \<open>v\<close>.
\<close>

definition plain_read :: "'n builtins \<Rightarrow> 'n jsv \<Rightarrow> seg \<Rightarrow> bool" where
  "plain_read B v s = (is_member v s \<or> \<not> Builtin_has B v (seg_key s))"

text \<open>Every read of the walk from \<open>v\<close> along the segments is such a read.\<close>

fun own_reads :: "'n builtins \<Rightarrow> 'n jsv \<Rightarrow> seg list \<Rightarrow> bool" where
  "own_reads B v [] = True"
| "own_reads B v (s # ss) =
     (case js_get v s of
        Inl e \<Rightarrow> True
      | Inr child \<Rightarrow> plain_read B v s \<and> own_reads B child ss)"

subsection \<open>String conversion\<close>

fun join :: "string \<Rightarrow> string list \<Rightarrow> string" where
  "join sep [] = []"
| "join sep [x] = x"
| "join sep (x # y # ys) = x @ sep @ join sep (y # ys)"

text \<open>
  \<^verbatim>\<open>String(v)\<close> and \<^verbatim>\<open>`${v}`\<close>. An array prints its elements joined by commas,
  with \<^verbatim>\<open>null\<close> and \<^verbatim>\<open>undefined\<close> elements empty.
\<close>

fun js_String :: "'n builtins \<Rightarrow> 'n jsv \<Rightarrow> string" where
  "js_String B JUndefined = ''undefined''"
| "js_String B JNull = ''null''"
| "js_String B (JBool b) = (if b then ''true'' else ''false'')"
| "js_String B (JNum n) = Number_toString B n"
| "js_String B (JStr s) = s"
| "js_String B (JArr xs) =
     join '','' (map (\<lambda>x. case x of JUndefined \<Rightarrow> [] | JNull \<Rightarrow> [] | _ \<Rightarrow> js_String B x) xs)"
| "js_String B (JObj ps) = ''[object Object]''"

text \<open>\<^verbatim>\<open>v ?? ""\<close>\<close>

definition nullish_empty :: "'n jsv \<Rightarrow> 'n jsv" where
  "nullish_empty v = (case v of JUndefined \<Rightarrow> JStr [] | JNull \<Rightarrow> JStr [] | _ \<Rightarrow> v)"

section \<open>Nodes\<close>

text \<open>
  \<^verbatim>\<open>NodeData\<close> (types/graph) with the fields the component reads: \<^verbatim>\<open>id\<close>,
  \<^verbatim>\<open>text\<close> (the rows) and the optional \<^verbatim>\<open>path\<close>. A row has a \<^verbatim>\<open>key\<close>
  (string or null), a \<^verbatim>\<open>value\<close> and a \<^verbatim>\<open>type\<close>.
\<close>

datatype row_type = T_string | T_number | T_boolean | T_null | T_array | T_object

record 'n NodeRow =
  row_key :: "string option"
  row_value :: "'n jsv"
  row_type :: row_type

record 'n NodeData =
  node_id :: string
  node_text :: "'n NodeRow list"
  node_path :: "seg list option"

text \<open>\<^verbatim>\<open>row.key\<close> as a condition: \<^verbatim>\<open>null\<close> and the empty string are falsy.\<close>

definition has_key :: "'n NodeRow \<Rightarrow> bool" where
  "has_key r = (case row_key r of None \<Rightarrow> False | Some k \<Rightarrow> k \<noteq> [])"

definition key_of :: "'n NodeRow \<Rightarrow> string" where
  "key_of r = (case row_key r of None \<Rightarrow> [] | Some k \<Rightarrow> k)"

text \<open>\<^verbatim>\<open>rows.length === 1 && !rows[0].key\<close>\<close>

definition single_value :: "'n NodeRow list \<Rightarrow> bool" where
  "single_value rows = (case rows of [r] \<Rightarrow> \<not> has_key r | _ \<Rightarrow> False)"


subsection \<open>normalizeNodeData\<close>







subsection \<open>jsonPathToString\<close>

definition seg_text :: "seg \<Rightarrow> string" where
  "seg_text s = (case s of Idx i \<Rightarrow> int_str i | Key k \<Rightarrow> ''\"'' @ k @ ''\"'')"

definition jsonPathToString :: "seg list option \<Rightarrow> string" where
  "jsonPathToString path =
     (case path of
        None \<Rightarrow> ''$''
      | Some p \<Rightarrow>
          if length p = 0 then ''$''
          else ''$['' @ join '']['' (map seg_text p) @ '']'')"

section \<open>The component\<close>

text \<open>
  The state the component reads and writes: the graph store (\<^verbatim>\<open>selectedNode\<close>,
  \<^verbatim>\<open>nodes\<close>), the text \<^verbatim>\<open>getJson()\<close> returns, the text \<^verbatim>\<open>setContents\<close>
  replaces, the two React state cells, the toasts shown, the errors logged to the
  console, and the callbacks handed to \<^verbatim>\<open>setTimeout\<close> that have not run yet. The
  callback of \<^verbatim>\<open>handleSave\<close> reads one thing of the \<^verbatim>\<open>nodeData\<close> it captured,
  its \<^verbatim>\<open>id\<close>; a pending callback is that id (\<open>None\<close> when \<^verbatim>\<open>nodeData\<close> was
  null). The delay of 500 ms is not modelled, only the order of events.
\<close>

datatype toast = ToastSuccess string | ToastError string

record 'n state =
  selectedNode :: "'n NodeData option"
  nodes :: "'n NodeData list"
  json :: string
  contents :: string
  isEditMode :: bool
  editedFields :: "(string \<times> string) list"
  toasts :: "toast list"
  console :: "js_error list"
  timers :: "string option list"

subsection \<open>Seeding the edit buffer\<close>

text \<open>
  \<^verbatim>\<open>fields[k] = t\<close> on the buffer built from \<^verbatim>\<open>{}\<close>, for a string \<open>t\<close>. The
  key \<^verbatim>\<open>__proto__\<close> reaches the accessor of \<^verbatim>\<open>Object.prototype\<close>, whose setter
  ignores a string: no entry is added, and the prototype stays.
\<close>

definition buffer_put :: "string \<Rightarrow> string \<Rightarrow> (string \<times> string) list \<Rightarrow> (string \<times> string) list" where
  "buffer_put k t buf = (if k = ''__proto__'' then buf else obj_put k t buf)"

text \<open>
  The body shared by the effect and \<^verbatim>\<open>handleCancel\<close>:
  \<^verbatim>\<open>fields[row.key] = String(row.value ?? "")\<close> for each row that is neither array
  nor object and has a key, or the one entry \<^verbatim>\<open>value\<close> for a single row without key.
\<close>

definition seed_step :: "'n builtins \<Rightarrow> 'n NodeRow \<Rightarrow> (string \<times> string) list \<Rightarrow> (string \<times> string) list" where
  "seed_step B row buf =
     (if row_type row \<noteq> T_array \<and> row_type row \<noteq> T_object \<and> has_key row
      then buffer_put (key_of row) (js_String B (nullish_empty (row_value row))) buf
      else buf)"

definition seedFields :: "'n builtins \<Rightarrow> 'n NodeData \<Rightarrow> (string \<times> string) list" where
  "seedFields B nodeData =
     (if length (node_text nodeData) = 1 \<and> \<not> has_key (node_text nodeData ! 0)
      then [(''value'', js_String B (nullish_empty (row_value (node_text nodeData ! 0))))]
      else fold (seed_step B) (node_text nodeData) [])"

definition openEffect :: "'n builtins \<Rightarrow> bool \<Rightarrow> 'n state \<Rightarrow> 'n state" where
  "openEffect B opened st =
     (case selectedNode st of
        None \<Rightarrow> st
      | Some nodeData \<Rightarrow>
          if opened then st\<lparr>isEditMode := False, editedFields := seedFields B nodeData\<rparr>
          else st)"

definition handleEdit :: "'n state \<Rightarrow> 'n state" where
  "handleEdit st = st\<lparr>isEditMode := True\<rparr>"

definition handleCancel :: "'n builtins \<Rightarrow> 'n state \<Rightarrow> 'n state" where
  "handleCancel B st =
     (case selectedNode st of
        None \<Rightarrow> st\<lparr>isEditMode := False\<rparr>
      | Some nodeData \<Rightarrow> st\<lparr>isEditMode := False, editedFields := seedFields B nodeData\<rparr>)"

text \<open>
  \<^verbatim>\<open>{ ...prev, [key]: value }\<close>: a computed key of an object literal defines a member
  whatever the key.
\<close>

definition handleFieldChange :: "string \<Rightarrow> string \<Rightarrow> 'n state \<Rightarrow> 'n state" where
  "handleFieldChange k v st = st\<lparr>editedFields := obj_put k v (editedFields st)\<rparr>"

subsection \<open>handleSave: writing the buffer into the parsed document\<close>

text \<open>
  \<^verbatim>\<open>editedFields[key]\<close> is a string, or \<^verbatim>\<open>undefined\<close> when the buffer has no such
  key; \<^verbatim>\<open>JSON.parse\<close> converts its argument to a string first.
\<close>

definition parse_arg :: "string option \<Rightarrow> string" where
  "parse_arg txt = (case txt of None \<Rightarrow> ''undefined'' | Some t \<Rightarrow> t)"

definition raw_value :: "string option \<Rightarrow> 'n jsv" where
  "raw_value txt = (case txt of None \<Rightarrow> JUndefined | Some t \<Rightarrow> JStr t)"

text \<open>
  \<^verbatim>\<open>try { target[s] = JSON.parse(txt) } catch { target[s] = txt }\<close>. The
  \<^verbatim>\<open>catch\<close> catches the SyntaxError of the parse and a TypeError of the assignment
  alike; what its own assignment throws leaves the statement.
\<close>

definition assign_parsed :: "'n builtins \<Rightarrow> 'n jsv \<Rightarrow> seg \<Rightarrow> string option \<Rightarrow> js_error + 'n jsv" where
  "assign_parsed B target s txt =
     (case (case JSON_parse B (parse_arg txt) of
              None \<Rightarrow> Inl SyntaxError
            | Some v \<Rightarrow> js_set target s v) of
        Inr target' \<Rightarrow> Inr target'
      | Inl e \<Rightarrow> js_set target s (raw_value txt))"

text \<open>
  \<^verbatim>\<open>Object.keys(editedFields).forEach(key => ...)\<close> on one target object; an
  exception ends the loop.
\<close>

definition write_field :: "'n builtins \<Rightarrow> (string \<times> string) list \<Rightarrow> string \<Rightarrow> js_error + 'n jsv \<Rightarrow> js_error + 'n jsv" where
  "write_field B buf k acc =
     (case acc of
        Inl e \<Rightarrow> Inl e
      | Inr target \<Rightarrow> assign_parsed B target (Key k) (map_of buf k))"

definition write_fields :: "'n builtins \<Rightarrow> (string \<times> string) list \<Rightarrow> 'n jsv \<Rightarrow> js_error + 'n jsv" where
  "write_fields B buf target = fold (write_field B buf) (map fst buf) (Inr target)"

text \<open>
  The parsed document is a tree without sharing, and \<^verbatim>\<open>current\<close> points into it:
  a mutation of the object \<^verbatim>\<open>current\<close> is a mutation of the document. In the model
  the changed child is put back into its parent along the path. \<open>put_child\<close> is
  that step: it only ever replaces the value of a property that is there.
\<close>

definition put_child :: "'n jsv \<Rightarrow> seg \<Rightarrow> 'n jsv \<Rightarrow> 'n jsv" where
  "put_child v s x = (case js_set v s x of Inr v' \<Rightarrow> v' | Inl e \<Rightarrow> v)"

text \<open>
  The loop \<^verbatim>\<open>for (i = 0; i < path.length - 1; i++) current = current[path[i]]\<close>
  over the segments \<open>ss\<close>, as a read ...
\<close>

fun walk :: "'n jsv \<Rightarrow> seg list \<Rightarrow> js_error + 'n jsv" where
  "walk current [] = Inr current"
| "walk current (s # ss) =
     (case js_get current s of Inl e \<Rightarrow> Inl e | Inr child \<Rightarrow> walk child ss)"

text \<open>... and followed by the statements \<open>f\<close> that mutate \<^verbatim>\<open>current\<close>.\<close>

fun with_parent :: "'n jsv \<Rightarrow> seg list \<Rightarrow> ('n jsv \<Rightarrow> js_error + 'n jsv) \<Rightarrow> js_error + 'n jsv" where
  "with_parent current [] f = f current"
| "with_parent current (s # ss) f =
     (case js_get current s of
        Inl e \<Rightarrow> Inl e
      | Inr child \<Rightarrow>
          (case with_parent child ss f of
             Inl e \<Rightarrow> Inl e
           | Inr child' \<Rightarrow> Inr (put_child current s child')))"

text \<open>The statements after the loop, on \<^verbatim>\<open>current\<close> and \<^verbatim>\<open>lastKey\<close>.\<close>

definition update_last :: "'n builtins \<Rightarrow> 'n NodeRow list \<Rightarrow> (string \<times> string) list \<Rightarrow> seg \<Rightarrow> 'n jsv \<Rightarrow> js_error + 'n jsv" where
  "update_last B rows buf lastKey current =
     (if length rows = 1 \<and> \<not> has_key (rows ! 0)
      then assign_parsed B current lastKey (map_of buf ''value'')
      else (case js_get current lastKey of
              Inl e \<Rightarrow> Inl e
            | Inr target \<Rightarrow>
                if is_object target
                then (case write_fields B buf target of
                        Inl e \<Rightarrow> Inl e
                      | Inr target' \<Rightarrow> Inr (put_child current lastKey target'))
                else Inr current))"

definition save_document :: "'n builtins \<Rightarrow> 'n NodeData option \<Rightarrow> (string \<times> string) list \<Rightarrow> 'n jsv \<Rightarrow> js_error + 'n jsv" where
  "save_document B nodeData buf fullJson =
     (case nodeData of
        None \<Rightarrow> write_fields B buf fullJson
      | Some nd \<Rightarrow>
          (case node_path nd of
             None \<Rightarrow> write_fields B buf fullJson
           | Some p \<Rightarrow>
               if length p > 0
               then with_parent fullJson (butlast p) (update_last B (node_text nd) buf (last p))
               else write_fields B buf fullJson))"

subsection \<open>handleSave: the optimistic node\<close>

text \<open>
  \<^verbatim>\<open>try { x = JSON.parse(txt) } catch { x = txt }\<close>, where nothing but the parse
  throws. For a single row the source assigns to the row object itself, which the
  shallow copy \<^verbatim>\<open>{ ...nodeData }\<close> shares with the node it was copied from; the
  model has values and no aliases, and \<open>optimistic\<close> is the node handed to
  \<^verbatim>\<open>setSelectedNode\<close>; a node of \<^verbatim>\<open>nodes\<close> that shares the row with it is not
  updated. \<^verbatim>\<open>editedFields[row.key]\<close> is read among the entries of the buffer: for a
  row that has no entry and is named like a property of \<^verbatim>\<open>Object.prototype\<close> the
  code finds the inherited value, the model none.
\<close>

definition parsed_or_raw :: "'n builtins \<Rightarrow> string option \<Rightarrow> 'n jsv" where
  "parsed_or_raw B txt =
     (case JSON_parse B (parse_arg txt) of None \<Rightarrow> raw_value txt | Some v \<Rightarrow> v)"

definition optimistic_row :: "'n builtins \<Rightarrow> (string \<times> string) list \<Rightarrow> 'n NodeRow \<Rightarrow> 'n NodeRow" where
  "optimistic_row B buf row =
     (if has_key row \<and> map_of buf (key_of row) \<noteq> None
      then row\<lparr>row_value := parsed_or_raw B (map_of buf (key_of row))\<rparr>
      else row)"

definition optimistic :: "'n builtins \<Rightarrow> (string \<times> string) list \<Rightarrow> 'n NodeData \<Rightarrow> 'n NodeData" where
  "optimistic B buf nodeData =
     (if length (node_text nodeData) = 1 \<and> \<not> has_key (node_text nodeData ! 0)
      then nodeData\<lparr>node_text :=
             [(node_text nodeData ! 0)\<lparr>row_value := parsed_or_raw B (map_of buf ''value'')\<rparr>]\<rparr>
      else nodeData\<lparr>node_text := map (optimistic_row B buf) (node_text nodeData)\<rparr>)"

subsection \<open>handleSave\<close>

text \<open>
  The body of the \<^verbatim>\<open>try\<close>: everything that can throw comes before the first write
  to a store.
\<close>

definition save_try :: "'n builtins \<Rightarrow> 'n state \<Rightarrow> js_error + 'n state" where
  "save_try B st =
     (case JSON_parse B (json st) of
        None \<Rightarrow> Inl SyntaxError
      | Some fullJson \<Rightarrow>
          (case save_document B (selectedNode st) (editedFields st) fullJson of
             Inl e \<Rightarrow> Inl e
           | Inr doc \<Rightarrow>
               Inr (st\<lparr>selectedNode := map_option (optimistic B (editedFields st)) (selectedNode st),
                        contents := JSON_stringify B doc,
                        toasts := toasts st @ [ToastSuccess ''Node updated successfully!''],
                        isEditMode := False,
                        timers := timers st @ [map_option node_id (selectedNode st)]\<rparr>)))"

definition handleSave :: "'n builtins \<Rightarrow> 'n state \<Rightarrow> 'n state" where
  "handleSave B st =
     (case save_try B st of
        Inr st' \<Rightarrow> st'
      | Inl e \<Rightarrow>
          st\<lparr>toasts := toasts st @ [ToastError ''Failed to update node. Please check your edits.''],
             console := console st @ [e]\<rparr>)"

subsection \<open>The deferred callback and the events around it\<close>

text \<open>
  The callback given to \<^verbatim>\<open>setTimeout\<close>:
  \<^verbatim>\<open>updatedNode = useGraph.getState().nodes.find(n => n.id === nodeData.id)\<close>, then
  \<^verbatim>\<open>if (updatedNode) setSelectedNode(updatedNode)\<close>.
\<close>

definition sync_callback :: "string option \<Rightarrow> 'n state \<Rightarrow> 'n state" where
  "sync_callback captured st =
     (case captured of
        None \<Rightarrow> st
      | Some i \<Rightarrow>
          (case find (\<lambda>n. node_id n = i) (nodes st) of
             None \<Rightarrow> st
           | Some updatedNode \<Rightarrow> st\<lparr>selectedNode := Some updatedNode\<rparr>))"

definition fire_timer :: "'n state \<Rightarrow> 'n state" where
  "fire_timer st =
     (case timers st of
        [] \<Rightarrow> st
      | t # ts \<Rightarrow> sync_callback t (st\<lparr>timers := ts\<rparr>))"

text \<open>
  What the rest of the application does between the commit and the callback: the user
  selects another node (\<^verbatim>\<open>setSelectedNode\<close> of the graph store), and the rebuild
  pipeline replaces the node collection.
\<close>

definition setSelectedNode :: "'n NodeData \<Rightarrow> 'n state \<Rightarrow> 'n state" where
  "setSelectedNode n st = st\<lparr>selectedNode := Some n\<rparr>"

definition setNodes :: "'n NodeData list \<Rightarrow> 'n state \<Rightarrow> 'n state" where
  "setNodes ns st = st\<lparr>nodes := ns\<rparr>"

section \<open>The built-ins on JSON with integer numbers\<close>

text \<open>
  An instance of the built-ins for evaluating the component on concrete documents.
  Numbers are integers. \<open>json_parse\<close> reads the JSON grammar with integer number
  literals and string literals without \<^verbatim>\<open>\u\<close> escapes, and returns \<open>None\<close> on
  every other text (number literals with a fraction or an exponent denote doubles and
  are not covered); \<open>json_stringify\<close> is \<^verbatim>\<open>JSON.stringify(v, null, 2)\<close> on ASCII
  strings. The general theorems do not use this instance: they hold for every \<open>B\<close>.
\<close>

definition is_ws :: "char \<Rightarrow> bool" where
  "is_ws c = (c = CHR '' '' \<or> c = CHR 0x0A \<or> c = CHR 0x0D \<or> c = CHR 0x09)"

definition skip_ws :: "string \<Rightarrow> string" where
  "skip_ws s = dropWhile is_ws s"

definition is_digit :: "char \<Rightarrow> bool" where
  "is_digit c = (digit_value c \<noteq> None)"

definition unescape :: "char \<Rightarrow> char option" where
  "unescape e =
     (if e = CHR ''\"'' then Some (CHR ''\"'')
      else if e = CHR 0x5C then Some (CHR 0x5C)
      else if e = CHR ''/'' then Some (CHR ''/'')
      else if e = CHR ''b'' then Some (CHR 0x08)
      else if e = CHR ''f'' then Some (CHR 0x0C)
      else if e = CHR ''n'' then Some (CHR 0x0A)
      else if e = CHR ''r'' then Some (CHR 0x0D)
      else if e = CHR ''t'' then Some (CHR 0x09)
      else None)"

text \<open>The text after an opening quote: the string up to the closing quote, and the rest.\<close>

fun lit_string :: "string \<Rightarrow> (string \<times> string) option" where
  "lit_string [] = None"
| "lit_string [c] = (if c = CHR ''\"'' then Some ([], []) else None)"
| "lit_string (c # e # r) =
     (if c = CHR ''\"'' then Some ([], e # r)
      else if c = CHR 0x5C
        then (case unescape e of
                None \<Rightarrow> None
              | Some d \<Rightarrow> map_option (apfst ((#) d)) (lit_string r))
      else if (of_char c :: nat) < 32 then None
      else map_option (apfst ((#) c)) (lit_string (e # r)))"

definition lit_number :: "string \<Rightarrow> (int \<times> string) option" where
  "lit_number s =
     (let neg = (s \<noteq> [] \<and> hd s = CHR ''-'');
          t = (if neg then tl s else s);
          ds = takeWhile is_digit t;
          r = dropWhile is_digit t
      in if ds = [] \<or> (length ds > 1 \<and> hd ds = CHR ''0'') then None
         else if r \<noteq> [] \<and> (hd r = CHR ''.'' \<or> hd r = CHR ''e'' \<or> hd r = CHR ''E'') then None
         else (case digits_value 0 ds of
                 None \<Rightarrow> None
               | Some n \<Rightarrow> Some (if neg then - int n else int n, r)))"

text \<open>
  Recursive descent; the first argument bounds the number of nested calls, and
  \<open>json_parse\<close> starts it above the length of the text.
\<close>

fun json_value :: "nat \<Rightarrow> string \<Rightarrow> (int jsv \<times> string) option"
  and json_elements :: "nat \<Rightarrow> string \<Rightarrow> (int jsv list \<times> string) option"
  and json_members :: "nat \<Rightarrow> string \<Rightarrow> ((string \<times> int jsv) list \<times> string) option"
where
  "json_value 0 s = None"
| "json_value (Suc n) s =
     (let t = skip_ws s in
      if t = [] then None
      else if hd t = CHR ''{''
        then (let u = skip_ws (tl t) in
              if u \<noteq> [] \<and> hd u = CHR ''}'' then Some (JObj [], tl u)
              else map_option (apfst (\<lambda>ms. JObj (fold (\<lambda>m. obj_put (fst m) (snd m)) ms []))) (json_members n u))
      else if hd t = CHR ''[''
        then (let u = skip_ws (tl t) in
              if u \<noteq> [] \<and> hd u = CHR '']'' then Some (JArr [], tl u)
              else map_option (apfst JArr) (json_elements n u))
      else if hd t = CHR ''\"'' then map_option (apfst JStr) (lit_string (tl t))
      else if take 4 t = ''true'' then Some (JBool True, drop 4 t)
      else if take 5 t = ''false'' then Some (JBool False, drop 5 t)
      else if take 4 t = ''null'' then Some (JNull, drop 4 t)
      else map_option (apfst JNum) (lit_number t))"
| "json_elements 0 s = None"
| "json_elements (Suc n) s =
     (case json_value n s of
        None \<Rightarrow> None
      | Some (v, r) \<Rightarrow>
          (let t = skip_ws r in
           if t = [] then None
           else if hd t = CHR '']'' then Some ([v], tl t)
           else if hd t = CHR '','' then map_option (apfst ((#) v)) (json_elements n (tl t))
           else None))"
| "json_members 0 s = None"
| "json_members (Suc n) s =
     (let t = skip_ws s in
      if t = [] \<or> hd t \<noteq> CHR ''\"'' then None
      else (case lit_string (tl t) of
              None \<Rightarrow> None
            | Some (k, r) \<Rightarrow>
                (let u = skip_ws r in
                 if u = [] \<or> hd u \<noteq> CHR '':'' then None
                 else (case json_value n (tl u) of
                         None \<Rightarrow> None
                       | Some (v, r') \<Rightarrow>
                           (let w = skip_ws r' in
                            if w = [] then None
                            else if hd w = CHR ''}'' then Some ([(k, v)], tl w)
                            else if hd w = CHR '',''
                              then map_option (apfst ((#) (k, v))) (json_members n (tl w))
                            else None)))))"

definition json_parse :: "string \<Rightarrow> int jsv option" where
  "json_parse s =
     (case json_value (Suc (length s)) s of
        None \<Rightarrow> None
      | Some (v, r) \<Rightarrow> if skip_ws r = [] then Some v else None)"

definition hex_char :: "nat \<Rightarrow> char" where
  "hex_char d = ''0123456789abcdef'' ! d"

definition escape_char :: "char \<Rightarrow> string" where
  "escape_char c =
     (if c = CHR ''\"'' then [CHR 0x5C, CHR ''\"'']
      else if c = CHR 0x5C then [CHR 0x5C, CHR 0x5C]
      else if c = CHR 0x08 then [CHR 0x5C, CHR ''b'']
      else if c = CHR 0x0C then [CHR 0x5C, CHR ''f'']
      else if c = CHR 0x0A then [CHR 0x5C, CHR ''n'']
      else if c = CHR 0x0D then [CHR 0x5C, CHR ''r'']
      else if c = CHR 0x09 then [CHR 0x5C, CHR ''t'']
      else if (of_char c :: nat) < 32
        then [CHR 0x5C, CHR ''u'', CHR ''0'', CHR ''0'',
              hex_char (of_char c div 16), hex_char (of_char c mod 16)]
      else [c])"

definition quote :: "string \<Rightarrow> string" where
  "quote s = CHR ''\"'' # concat (map escape_char s) @ [CHR ''\"'']"

definition pad :: "nat \<Rightarrow> string" where
  "pad n = replicate n (CHR '' '')"

definition block :: "char \<Rightarrow> string list \<Rightarrow> nat \<Rightarrow> char \<Rightarrow> string" where
  "block l items ind r =
     (if items = [] then [l, r]
      else [l, CHR 0x0A] @ join [CHR '','', CHR 0x0A] items @ [CHR 0x0A] @ pad ind @ [r])"

text \<open>
  \<open>stringify_at ind v\<close> is the text of \<open>v\<close> at indentation \<open>ind\<close>. A member whose
  value is \<^verbatim>\<open>undefined\<close> is left out, and a hole of an array prints as
  \<^verbatim>\<open>null\<close>. (\<^verbatim>\<open>JSON.stringify(undefined)\<close> itself is no string; the component
  never calls it on \<^verbatim>\<open>undefined\<close>.)
\<close>

fun stringify_at :: "nat \<Rightarrow> int jsv \<Rightarrow> string"
  and stringify_elements :: "nat \<Rightarrow> int jsv list \<Rightarrow> string list"
  and stringify_members :: "nat \<Rightarrow> (string \<times> int jsv) list \<Rightarrow> string list"
where
  "stringify_at ind JUndefined = ''null''"
| "stringify_at ind JNull = ''null''"
| "stringify_at ind (JBool b) = (if b then ''true'' else ''false'')"
| "stringify_at ind (JNum n) = int_str n"
| "stringify_at ind (JStr s) = quote s"
| "stringify_at ind (JArr xs) = block (CHR ''['') (stringify_elements (ind + 2) xs) ind (CHR '']'')"
| "stringify_at ind (JObj ps) = block (CHR ''{'') (stringify_members (ind + 2) ps) ind (CHR ''}'')"
| "stringify_elements ind [] = []"
| "stringify_elements ind (x # xs) = (pad ind @ stringify_at ind x) # stringify_elements ind xs"
| "stringify_members ind [] = []"
| "stringify_members ind (p # ps) =
     (case snd p of
        JUndefined \<Rightarrow> stringify_members ind ps
      | _ \<Rightarrow> (pad ind @ quote (fst p) @ '': '' @ stringify_at ind (snd p)) # stringify_members ind ps)"

definition json_stringify :: "int jsv \<Rightarrow> string" where
  "json_stringify v = stringify_at 0 v"

text \<open>
  The properties the runtime finds beyond the JSON members, by the kind of the value:
  the string-keyed properties of \<^verbatim>\<open>Object.prototype\<close>, \<^verbatim>\<open>Array.prototype\<close>,
  \<^verbatim>\<open>String.prototype\<close> and \<^verbatim>\<open>Number.prototype\<close> in ECMAScript 2023 (with its
  Annex B), and \<^verbatim>\<open>length\<close>. \<^verbatim>\<open>Boolean.prototype\<close> adds no name of its own.
\<close>

definition object_names :: "string list" where
  "object_names =
     [''constructor'', ''hasOwnProperty'', ''isPrototypeOf'', ''propertyIsEnumerable'',
      ''toLocaleString'', ''toString'', ''valueOf'', ''__proto__'',
      ''__defineGetter__'', ''__defineSetter__'', ''__lookupGetter__'', ''__lookupSetter__'']"

definition array_names :: "string list" where
  "array_names =
     [''length'', ''at'', ''concat'', ''copyWithin'', ''entries'', ''every'', ''fill'',
      ''filter'', ''find'', ''findIndex'', ''findLast'', ''findLastIndex'', ''flat'',
      ''flatMap'', ''forEach'', ''includes'', ''indexOf'', ''join'', ''keys'',
      ''lastIndexOf'', ''map'', ''pop'', ''push'', ''reduce'', ''reduceRight'', ''reverse'',
      ''shift'', ''slice'', ''some'', ''sort'', ''splice'', ''toReversed'', ''toSorted'',
      ''toSpliced'', ''unshift'', ''values'', ''with'']"

definition string_names :: "string list" where
  "string_names =
     [''length'', ''anchor'', ''at'', ''big'', ''blink'', ''bold'', ''charAt'',
      ''charCodeAt'', ''codePointAt'', ''concat'', ''endsWith'', ''fixed'', ''fontcolor'',
      ''fontsize'', ''includes'', ''indexOf'', ''isWellFormed'', ''italics'',
      ''lastIndexOf'', ''link'', ''localeCompare'', ''match'', ''matchAll'', ''normalize'',
      ''padEnd'', ''padStart'', ''repeat'', ''replace'', ''replaceAll'', ''search'',
      ''slice'', ''small'', ''split'', ''startsWith'', ''strike'', ''sub'', ''substr'',
      ''substring'', ''sup'', ''toLocaleLowerCase'', ''toLocaleUpperCase'',
      ''toLowerCase'', ''toUpperCase'', ''toWellFormed'', ''trim'', ''trimEnd'',
      ''trimLeft'', ''trimRight'', ''trimStart'']"

definition number_names :: "string list" where
  "number_names = [''toExponential'', ''toFixed'', ''toPrecision'']"

definition ecma_has :: "int jsv \<Rightarrow> string \<Rightarrow> bool" where
  "ecma_has v k =
     (case v of
        JObj ps \<Rightarrow> k \<in> set object_names
      | JArr xs \<Rightarrow> k \<in> set (array_names @ object_names)
      | JStr cs \<Rightarrow> k \<in> set (string_names @ object_names)
      | JNum n \<Rightarrow> k \<in> set (number_names @ object_names)
      | JBool b \<Rightarrow> k \<in> set object_names
      | _ \<Rightarrow> False)"

definition ecma :: "int builtins" where
  "ecma =
     \<lparr>JSON_parse = json_parse, JSON_stringify = json_stringify, Number_toString = int_str,
      Builtin_has = ecma_has\<rparr>"

section \<open>Notions of the specification\<close>


definition spec_resolveParent :: "'n jsv \<Rightarrow> seg list \<Rightarrow> 'n jsv option" where
  "spec_resolveParent root p =
     (case walk root (butlast p) of
        Inl e \<Rightarrow> None
      | Inr c \<Rightarrow> if is_object c then Some c else None)"







definition nullish :: "'n jsv \<Rightarrow> bool" where
  "nullish v = (case v of JUndefined \<Rightarrow> True | JNull \<Rightarrow> True | _ \<Rightarrow> False)"

definition failure_toast :: toast where
  "failure_toast = ToastError ''Failed to update node. Please check your edits.''"

definition success_toast :: toast where
  "success_toast = ToastSuccess ''Node updated successfully!''"

section \<open>Concrete documents and nodes\<close>

definition mk_state :: "int NodeData \<Rightarrow> string \<Rightarrow> (string \<times> string) list \<Rightarrow> int state" where
  "mk_state nd doc buf =
     \<lparr>selectedNode = Some nd, nodes = [nd], json = doc, contents = doc, isEditMode = True,
      editedFields = buf, toasts = [], console = [], timers = []\<rparr>"


definition row_x :: "int NodeRow" where
  "row_x = \<lparr>row_key = Some ''x'', row_value = JNum 1, row_type = T_number\<rparr>"

text \<open>
  A node with the row \<^verbatim>\<open>x: 1\<close> selected at \<^verbatim>\<open>$["a"]["b"]\<close>, and the document
  \<^verbatim>\<open>{"a": 5}\<close>, in which that path leads nowhere: its parent is the number 5.
\<close>

definition node_stale :: "int NodeData" where
  "node_stale = \<lparr>node_id = ''2'', node_text = [row_x], node_path = Some [Key ''a'', Key ''b'']\<rparr>"

definition st_stale :: "int state" where
  "st_stale = mk_state node_stale ''{\"a\": 5}'' [(''x'', ''2'')]"

text \<open>The same node over \<^verbatim>\<open>{"a": null}\<close>: the parent is \<^verbatim>\<open>null\<close>.\<close>

definition st_null_parent :: "int state" where
  "st_null_parent = mk_state node_stale ''{\"a\": null}'' [(''x'', ''2'')]"

text \<open>The end-to-end example: document \<^verbatim>\<open>{"x":1}\<close>, root node, buffer \<^verbatim>\<open>{"x":"2"}\<close>.\<close>

definition node_root :: "int NodeData" where
  "node_root = \<lparr>node_id = ''1'', node_text = [row_x], node_path = Some []\<rparr>"

definition st_root :: "int state" where
  "st_root = mk_state node_root ''{\"x\":1}'' [(''x'', ''2'')]"

definition node_root_rebuilt :: "int NodeData" where
  "node_root_rebuilt =
     \<lparr>node_id = ''1'',
      node_text = [\<lparr>row_key = Some ''x'', row_value = JNum 2, row_type = T_number\<rparr>],
      node_path = Some []\<rparr>"

definition node_renumbered :: "int NodeData" where
  "node_renumbered = node_root_rebuilt\<lparr>node_id := ''9''\<rparr>"

text \<open>
  The document \<^verbatim>\<open>{"x":1,"o":{"y":true}}\<close> has two nodes: the root, with the rows
  \<^verbatim>\<open>x\<close> and \<^verbatim>\<open>o\<close>, and the node of the object at \<^verbatim>\<open>$["o"]\<close>.
\<close>

definition node_top :: "int NodeData" where
  "node_top =
     \<lparr>node_id = ''1'',
      node_text = [\<lparr>row_key = Some ''x'', row_value = JNum 1, row_type = T_number\<rparr>,
                   \<lparr>row_key = Some ''o'', row_value = JNull, row_type = T_object\<rparr>],
      node_path = Some []\<rparr>"

definition node_top_rebuilt :: "int NodeData" where
  "node_top_rebuilt =
     \<lparr>node_id = ''1'',
      node_text = [\<lparr>row_key = Some ''x'', row_value = JNum 2, row_type = T_number\<rparr>,
                   \<lparr>row_key = Some ''o'', row_value = JNull, row_type = T_object\<rparr>],
      node_path = Some []\<rparr>"

definition node_other :: "int NodeData" where
  "node_other =
     \<lparr>node_id = ''2'',
      node_text = [\<lparr>row_key = Some ''y'', row_value = JBool True, row_type = T_boolean\<rparr>],
      node_path = Some [Key ''o'']\<rparr>"

definition st_two :: "int state" where
  "st_two =
     (mk_state node_top ''{\"x\":1,\"o\":{\"y\":true}}'' [(''x'', ''2'')])\<lparr>nodes := [node_top, node_other]\<rparr>"






text \<open>A single value inside an array, \<^verbatim>\<open>$["l"][1]\<close> of \<^verbatim>\<open>{"l": [1, 2]}\<close>.\<close>

definition node_elem :: "int NodeData" where
  "node_elem =
     \<lparr>node_id = ''4'',
      node_text = [\<lparr>row_key = None, row_value = JNum 2, row_type = T_number\<rparr>],
      node_path = Some [Key ''l'', Idx 1]\<rparr>"













text \<open>The single value at \<^verbatim>\<open>$["l"][1]\<close>, over \<^verbatim>\<open>{"l": 7}\<close>: the parent is a number.\<close>

definition st_elem_stale :: "int state" where
  "st_elem_stale = mk_state node_elem ''{\"l\": 7}'' [(''value'', ''true'')]"


section \<open>Objects as property lists\<close>




lemma obj_put_same: "map_of ps k = Some v \<Longrightarrow> obj_put k v ps = ps"
  by (induction ps) (auto split: if_splits)


section \<open>The rendering of a path\<close>

lemma join_brackets:
  "xs \<noteq> [] \<Longrightarrow> ''['' @ join '']['' xs @ '']'' = concat (map (\<lambda>x. ''['' @ x @ '']'') xs)"
  by (induction "''][''" xs rule: join.induct) auto

lemma digit_char_digit: "d < 10 \<Longrightarrow> digit_value (digit_char d) = Some d"
proof -
  assume "d < 10"
  then have "d \<in> {0, 1, 2, 3, 4, 5, 6, 7, 8, 9}" by auto
  then show ?thesis by (auto simp: digit_char_def digit_value_def)
qed

lemma nat_str_digits: "\<forall>c \<in> set (nat_str n). digit_value c \<noteq> None"
proof (induction n rule: nat_str.induct)
  case (1 n)
  show ?case
  proof (cases "n < 10")
    case True
    then show ?thesis by (subst nat_str.simps) (simp add: digit_char_digit)
  next
    case False
    then have "digit_value (digit_char (n mod 10)) \<noteq> None"
      by (simp add: digit_char_digit)
    with False 1 show ?thesis by (subst nat_str.simps) auto
  qed
qed

lemma int_str_no_quote: "CHR ''\"'' \<notin> set (int_str i)"
  using nat_str_digits[of "nat i"] nat_str_digits[of "nat (- i)"]
  by (auto simp: int_str_def digit_value_def)

text \<open>
  C8. \<^verbatim>\<open>jsonPathToString\<close> has a result for every path, with no failing branch: a
  missing or empty path renders as the root symbol \<^verbatim>\<open>$\<close>, and a path renders as
  \<^verbatim>\<open>$\<close> followed by one bracketed segment per element, a string segment between
  double quotes and a numeric segment as its bare decimal text (no quote in it).
\<close>

theorem jsonPathToString_render:
  "jsonPathToString None = ''$'' \<and>
   jsonPathToString (Some p) = ''$'' @ concat (map (\<lambda>s. ''['' @ seg_text s @ '']'') p) \<and>
   (\<forall>k. seg_text (Key k) = ''\"'' @ k @ ''\"'') \<and>
   (\<forall>i. seg_text (Idx i) = int_str i \<and> CHR ''\"'' \<notin> set (seg_text (Idx i)))"
proof -
  have "jsonPathToString (Some p) = ''$'' @ concat (map (\<lambda>s. ''['' @ seg_text s @ '']'') p)"
  proof (cases p)
    case Nil
    then show ?thesis by (simp add: jsonPathToString_def)
  next
    case (Cons s ss)
    then have "map seg_text p \<noteq> []" by simp
    from join_brackets[OF this] Cons show ?thesis
      by (simp add: jsonPathToString_def comp_def)
  qed
  then show ?thesis
    using int_str_no_quote by (simp add: jsonPathToString_def seg_text_def)
qed

theorem jsonPathToString_render_witness:
  "jsonPathToString (Some []) = ''$'' \<and>
   jsonPathToString (Some [Key ''customer'', Idx 0]) = ''$[\"customer\"][0]''"
  using jsonPathToString_render[of "[]"] jsonPathToString_render[of "[Key ''customer'', Idx 0]"]
  by (simp add: int_str_def digit_char_def nat_str.simps)


section \<open>The display value of a node\<close>











section \<open>The commit: writes, walk and failure\<close>

lemma js_set_fails: "\<not> is_object t \<Longrightarrow> js_set t s x = Inl TypeError"
  by (cases t) (simp_all add: js_set_def is_object_def)

lemma js_set_ok: "is_object t \<Longrightarrow> \<exists>t'. js_set t s x = Inr t' \<and> is_object t'"
  by (cases t) (simp_all add: js_set_def is_object_def split: option.splits)

lemma assign_parsed_eq: "assign_parsed B t s txt = js_set t s (parsed_or_raw B txt)"
  by (cases t)
     (auto simp: assign_parsed_def parsed_or_raw_def js_set_def split: option.splits)

lemma write_field_Inr:
  "write_field B buf k (Inr t) = js_set t (Key k) (parsed_or_raw B (map_of buf k))"
  by (simp add: write_field_def assign_parsed_eq)

lemma write_field_Inl: "write_field B buf k (Inl e) = Inl e"
  by (simp add: write_field_def)



lemma fold_write_field_Inl: "fold (write_field B buf) ks (Inl e) = Inl e"
  by (induction ks) (simp_all add: write_field_Inl)

lemma write_fields_object:
  "is_object t \<Longrightarrow> \<exists>t'. fold (write_field B buf) ks (Inr t) = Inr t' \<and> is_object t'"
proof (induction ks arbitrary: t)
  case Nil
  then show ?case by simp
next
  case (Cons k ks)
  from js_set_ok[OF Cons.prems] obtain t' where
    "js_set t (Key k) (parsed_or_raw B (map_of buf k)) = Inr t'" "is_object t'" by blast
  with Cons.IH[of t'] show ?case
    by (simp add: write_field_Inr)
qed

lemma write_fields_primitive:
  "\<not> is_object t \<Longrightarrow> write_fields B buf t = (if buf = [] then Inr t else Inl TypeError)"
  by (cases buf) (simp_all add: write_fields_def write_field_Inr js_set_fails fold_write_field_Inl)

lemma walk_fail: "walk root ss = Inl e \<Longrightarrow> with_parent root ss f = Inl e"
  by (induction ss arbitrary: root) (auto split: sum.splits)

lemma walk_then_fail: "walk root ss = Inr c \<Longrightarrow> f c = Inl e \<Longrightarrow> with_parent root ss f = Inl e"
  by (induction ss arbitrary: root) (auto split: sum.splits)




lemma put_child_same:
  "js_get cur s = Inr child \<Longrightarrow> child \<noteq> JUndefined \<Longrightarrow> put_child cur s child = cur"
  by (cases cur)
     (auto simp: js_get_def put_child_def js_set_def arr_put_def obj_put_same
           split: option.splits if_splits)

lemma walk_undefined: "walk JUndefined ss = Inr c \<Longrightarrow> c = JUndefined"
  by (cases ss) (auto simp: js_get_def)

lemma with_parent_same:
  "walk root ss = Inr c \<Longrightarrow> c \<noteq> JUndefined \<Longrightarrow> f c = Inr c \<Longrightarrow> with_parent root ss f = Inr root"
proof (induction ss arbitrary: root)
  case Nil
  then show ?case by simp
next
  case (Cons s ss)
  from Cons.prems(1) obtain child where g: "js_get root s = Inr child" and w: "walk child ss = Inr c"
    by (auto split: sum.splits)
  from w Cons.prems(2) have "child \<noteq> JUndefined" by (auto dest: walk_undefined)
  with g have "put_child root s child = root" by (rule put_child_same)
  with Cons.IH[OF w Cons.prems(2,3)] g show ?case by simp
qed


lemma walk_snoc:
  "walk root (ss @ [s]) = (case walk root ss of Inl e \<Rightarrow> Inl e | Inr c \<Rightarrow> js_get c s)"
  by (induction ss arbitrary: root) (auto split: sum.splits)


lemma single_value_iff: "single_value rows = (length rows = 1 \<and> \<not> has_key (rows ! 0))"
  by (cases rows) (auto simp: single_value_def split: list.splits)

lemma update_last_alt:
  "update_last B rows buf s c =
     (if single_value rows then assign_parsed B c s (map_of buf ''value'')
      else (case js_get c s of
              Inl e \<Rightarrow> Inl e
            | Inr target \<Rightarrow>
                if is_object target
                then (case write_fields B buf target of
                        Inl e \<Rightarrow> Inl e
                      | Inr target' \<Rightarrow> Inr (put_child c s target'))
                else Inr c))"
  unfolding update_last_def single_value_iff by (rule refl)


lemma update_last_skip:
  assumes "\<not> single_value rows" and "js_get c s = Inr v" and "\<not> is_object v"
  shows "update_last B rows buf s c = Inr c"
  using assms by (simp add: update_last_alt)

lemma update_last_single:
  assumes "single_value rows"
  shows "update_last B rows buf s c = js_set c s (parsed_or_raw B (map_of buf ''value''))"
  using assms by (simp add: update_last_alt assign_parsed_eq)

lemma js_get_nullish: "nullish c \<Longrightarrow> js_get c s = Inl TypeError"
  by (cases c) (simp_all add: nullish_def js_get_def)

lemma nullish_not_object: "nullish c \<Longrightarrow> \<not> is_object c"
  by (cases c) (simp_all add: nullish_def is_object_def)

lemma update_last_raises:
  assumes "nullish c \<or> (single_value rows \<and> \<not> is_object c)"
  shows "update_last B rows buf s c = Inl TypeError"
proof (cases "single_value rows")
  case True
  with assms have "\<not> is_object c" by (auto dest: nullish_not_object)
  with True show ?thesis by (simp add: update_last_single js_set_fails)
next
  case False
  with assms have "nullish c" by simp
  with False show ?thesis by (simp add: update_last_alt js_get_nullish)
qed

lemma save_document_path:
  "node_path nd = Some p \<Longrightarrow> p \<noteq> [] \<Longrightarrow>
     save_document B (Some nd) buf root =
       with_parent root (butlast p) (update_last B (node_text nd) buf (last p))"
  by (simp add: save_document_def)


lemma walk_last:
  "p \<noteq> [] \<Longrightarrow> walk root p = (case walk root (butlast p) of Inl e \<Rightarrow> Inl e | Inr c \<Rightarrow> js_get c (last p))"
  using walk_snoc[of root "butlast p" "last p"] by simp

lemma save_document_raises:
  assumes "node_path nd = Some p" and "p \<noteq> []"
    and "walk root (butlast p) = Inl e \<or>
         (\<exists>c. walk root (butlast p) = Inr c \<and> (nullish c \<or> (single_value (node_text nd) \<and> \<not> is_object c)))"
  shows "\<exists>err. save_document B (Some nd) buf root = Inl err"
  using assms(3)
proof
  assume "walk root (butlast p) = Inl e"
  then show ?thesis
    by (simp add: save_document_path[OF assms(1,2)] walk_fail)
next
  assume "\<exists>c. walk root (butlast p) = Inr c \<and> (nullish c \<or> (single_value (node_text nd) \<and> \<not> is_object c))"
  then obtain c where w: "walk root (butlast p) = Inr c"
    and c: "nullish c \<or> (single_value (node_text nd) \<and> \<not> is_object c)" by blast
  from c have "update_last B (node_text nd) buf (last p) c = Inl TypeError"
    by (rule update_last_raises)
  with w show ?thesis
    by (simp add: save_document_path[OF assms(1,2)] walk_then_fail)
qed

lemma save_document_skip:
  assumes "node_path nd = Some p" and "p \<noteq> []" and "\<not> single_value (node_text nd)"
    and "walk root p = Inr v" and "\<not> is_object v"
  shows "save_document B (Some nd) buf root = Inr root"
proof -
  from assms(4) walk_last[OF assms(2), of root] obtain c where
    w: "walk root (butlast p) = Inr c" and g: "js_get c (last p) = Inr v"
    by (auto split: sum.splits)
  from g have "c \<noteq> JUndefined" by (auto simp: js_get_def)
  moreover from assms(3) g assms(5) have "update_last B (node_text nd) buf (last p) c = Inr c"
    by (rule update_last_skip)
  ultimately show ?thesis
    using w by (simp add: save_document_path[OF assms(1,2)] with_parent_same)
qed




lemma handleSave_failure:
  "save_try B st = Inl e \<Longrightarrow>
     handleSave B st = st\<lparr>toasts := toasts st @ [failure_toast], console := console st @ [e]\<rparr>"
  by (simp add: handleSave_def failure_toast_def)

lemma save_try_Inl:
  "JSON_parse B (json st) = Some root \<Longrightarrow>
   save_document B (selectedNode st) (editedFields st) root = Inl e \<Longrightarrow> save_try B st = Inl e"
  by (simp add: save_try_def)

lemma handleSave_success:
  "JSON_parse B (json st) = Some root \<Longrightarrow>
   save_document B (selectedNode st) (editedFields st) root = Inr doc \<Longrightarrow>
   handleSave B st =
     st\<lparr>selectedNode := map_option (optimistic B (editedFields st)) (selectedNode st),
        contents := JSON_stringify B doc,
        toasts := toasts st @ [success_toast],
        isEditMode := False,
        timers := timers st @ [map_option node_id (selectedNode st)]\<rparr>"
  by (simp add: handleSave_def save_try_def success_toast_def)


section \<open>Failure and silent success of a commit\<close>

text \<open>
  C1 (as amended). Let the node have a non-empty path, and let the walk to the parent
  read members of the document only, or keys the runtime does not find (on such reads
  \<open>js_get\<close> is the JavaScript read). When that walk raises, or ends at \<^verbatim>\<open>null\<close>
  or \<^verbatim>\<open>undefined\<close>, or, for a single-value node, ends at a primitive on which the
  last segment is such a key too, then the specification's parent resolution has no
  result and the commit aborts atomically: the state after \<^verbatim>\<open>handleSave\<close> is the
  state before it with one failure toast and one console entry added; the stored texts
  and the selected node are the ones before the attempt.
\<close>

theorem commit_abort_atomic:
  assumes "selectedNode st = Some nd" and "node_path nd = Some p" and "p \<noteq> []"
    and "JSON_parse B (json st) = Some root"
    and "own_reads B root (butlast p)"
    and "walk root (butlast p) = Inl e \<or>
         (\<exists>c. walk root (butlast p) = Inr c \<and>
              (nullish c \<or>
               (single_value (node_text nd) \<and> \<not> is_object c \<and> plain_read B c (last p))))"
  shows "spec_resolveParent root p = None \<and>
         (\<exists>err. handleSave B st =
                  st\<lparr>toasts := toasts st @ [failure_toast], console := console st @ [err]\<rparr>) \<and>
         contents (handleSave B st) = contents st \<and>
         json (handleSave B st) = json st \<and>
         selectedNode (handleSave B st) = selectedNode st \<and>
         toasts (handleSave B st) = toasts st @ [failure_toast]"
proof -
  from assms(6) have r: "walk root (butlast p) = Inl e \<or>
         (\<exists>c. walk root (butlast p) = Inr c \<and>
              (nullish c \<or> (single_value (node_text nd) \<and> \<not> is_object c)))"
    by blast
  then have "spec_resolveParent root p = None"
    by (auto simp: spec_resolveParent_def dest: nullish_not_object)
  moreover
  from save_document_raises[OF assms(2,3) r] obtain err where
    "save_document B (Some nd) (editedFields st) root = Inl err" by blast
  with assms(1,4) have "save_try B st = Inl err"
    by (simp add: save_try_Inl)
  then have "handleSave B st =
      st\<lparr>toasts := toasts st @ [failure_toast], console := console st @ [err]\<rparr>"
    by (rule handleSave_failure)
  ultimately show ?thesis by auto
qed

text \<open>
  The node at \<^verbatim>\<open>$["a"]["b"]\<close> over \<^verbatim>\<open>{"a": null}\<close>: the parent is \<^verbatim>\<open>null\<close>;
  and the single value at \<^verbatim>\<open>$["l"][1]\<close> over \<^verbatim>\<open>{"l": 7}\<close>: the parent is a number.
\<close>

theorem commit_abort_atomic_witness:
  "json_parse (json st_null_parent) = Some (JObj [(''a'', JNull)]) \<and>
   own_reads ecma (JObj [(''a'', JNull)]) (butlast [Key ''a'', Key ''b'']) \<and>
   walk (JObj [(''a'', JNull :: int jsv)]) (butlast [Key ''a'', Key ''b'']) = Inr JNull \<and>
   contents (handleSave ecma st_null_parent) = contents st_null_parent \<and>
   selectedNode (handleSave ecma st_null_parent) = selectedNode st_null_parent \<and>
   toasts (handleSave ecma st_null_parent) = [failure_toast] \<and>
   json_parse (json st_elem_stale) = Some (JObj [(''l'', JNum 7)]) \<and>
   own_reads ecma (JObj [(''l'', JNum 7)]) (butlast [Key ''l'', Idx 1]) \<and>
   walk (JObj [(''l'', JNum (7::int))]) (butlast [Key ''l'', Idx 1]) = Inr (JNum 7) \<and>
   plain_read ecma (JNum 7) (last [Key ''l'', Idx 1]) \<and>
   contents (handleSave ecma st_elem_stale) = contents st_elem_stale \<and>
   selectedNode (handleSave ecma st_elem_stale) = selectedNode st_elem_stale \<and>
   toasts (handleSave ecma st_elem_stale) = [failure_toast]"
proof -
  have 1: "selectedNode st_null_parent = Some node_stale" by code_simp
  have 2: "node_path node_stale = Some [Key ''a'', Key ''b'']" by code_simp
  have 3: "[Key ''a'', Key ''b''] \<noteq> []" by simp
  have 4: "JSON_parse ecma (json st_null_parent) = Some (JObj [(''a'', JNull)])" by code_simp
  have o: "own_reads ecma (JObj [(''a'', JNull)]) (butlast [Key ''a'', Key ''b''])" by code_simp
  have w: "walk (JObj [(''a'', JNull :: int jsv)]) (butlast [Key ''a'', Key ''b'']) = Inr JNull"
    by code_simp
  have n: "nullish (JNull :: int jsv)" by code_simp
  have 5: "walk (JObj [(''a'', JNull :: int jsv)]) (butlast [Key ''a'', Key ''b'']) = Inl TypeError \<or>
      (\<exists>c. walk (JObj [(''a'', JNull :: int jsv)]) (butlast [Key ''a'', Key ''b'']) = Inr c \<and>
           (nullish c \<or>
            (single_value (node_text node_stale) \<and> \<not> is_object c \<and>
             plain_read ecma c (last [Key ''a'', Key ''b'']))))"
    using w n by blast
  have t: "toasts st_null_parent = []" by code_simp
  from commit_abort_atomic[OF 1 2 3 4 o 5] 4 t
  have A: "contents (handleSave ecma st_null_parent) = contents st_null_parent \<and>
           selectedNode (handleSave ecma st_null_parent) = selectedNode st_null_parent \<and>
           toasts (handleSave ecma st_null_parent) = [failure_toast]"
    by simp
  have e1: "selectedNode st_elem_stale = Some node_elem" by code_simp
  have e2: "node_path node_elem = Some [Key ''l'', Idx 1]" by code_simp
  have e3: "[Key ''l'', Idx 1] \<noteq> []" by simp
  have e4: "JSON_parse ecma (json st_elem_stale) = Some (JObj [(''l'', JNum 7)])" by code_simp
  have eo: "own_reads ecma (JObj [(''l'', JNum 7)]) (butlast [Key ''l'', Idx 1])" by code_simp
  have ew: "walk (JObj [(''l'', JNum (7::int))]) (butlast [Key ''l'', Idx 1]) = Inr (JNum 7)"
    by code_simp
  have es: "single_value (node_text node_elem) \<and> \<not> is_object (JNum (7::int)) \<and>
            plain_read ecma (JNum 7) (last [Key ''l'', Idx 1])" by code_simp
  have e5: "walk (JObj [(''l'', JNum (7::int))]) (butlast [Key ''l'', Idx 1]) = Inl TypeError \<or>
      (\<exists>c. walk (JObj [(''l'', JNum (7::int))]) (butlast [Key ''l'', Idx 1]) = Inr c \<and>
           (nullish c \<or>
            (single_value (node_text node_elem) \<and> \<not> is_object c \<and>
             plain_read ecma c (last [Key ''l'', Idx 1]))))"
    using ew es by blast
  have et: "toasts st_elem_stale = []" by code_simp
  from commit_abort_atomic[OF e1 e2 e3 e4 eo e5] e4 et
  have B: "contents (handleSave ecma st_elem_stale) = contents st_elem_stale \<and>
           selectedNode (handleSave ecma st_elem_stale) = selectedNode st_elem_stale \<and>
           toasts (handleSave ecma st_elem_stale) = [failure_toast]"
    by simp
  have e: "JSON_parse ecma = json_parse" by (simp add: ecma_def)
  from A B 4 e4 o eo w ew es show ?thesis unfolding e by blast
qed

text \<open>
  C1 as stated fails. Over \<^verbatim>\<open>{"a": 5}\<close> the path \<^verbatim>\<open>$["a"]["b"]\<close> reaches no
  container (its parent is the number 5), and the node has keyed rows: the guard
  \<^verbatim>\<open>typeof current[lastKey] === 'object'\<close> skips the writes, nothing throws, and the
  commit reports success, replaces the selected node and replaces the stored text.
\<close>

theorem commit_abort_atomic_counterexample:
  "json_parse (json st_stale) = Some (JObj [(''a'', JNum 5)]) \<and>
   spec_resolveParent (JObj [(''a'', JNum (5::int))]) [Key ''a'', Key ''b''] = None \<and>
   toasts (handleSave ecma st_stale) = [success_toast] \<and>
   selectedNode (handleSave ecma st_stale) \<noteq> selectedNode st_stale \<and>
   contents (handleSave ecma st_stale) \<noteq> contents st_stale"
  by code_simp

text \<open>
  C9. For a node with keyed rows and a non-empty path, when the value at the path in the
  parsed document is no non-null object (a primitive, \<^verbatim>\<open>null\<close>, or
  \<^verbatim>\<open>undefined\<close> for a missing member), \<^verbatim>\<open>handleSave\<close> writes nothing into the
  document and still succeeds: the stored text becomes the serialisation of the
  unchanged document, the optimistic node is installed, the success toast is shown,
  edit mode ends and the callback is scheduled. No failure is reported.
\<close>

theorem silent_skip_non_object:
  assumes "selectedNode st = Some nd" and "node_path nd = Some p" and "p \<noteq> []"
    and "\<not> single_value (node_text nd)"
    and "JSON_parse B (json st) = Some root"
    and "walk root p = Inr v" and "\<not> is_object v"
  shows "handleSave B st =
           st\<lparr>selectedNode := Some (optimistic B (editedFields st) nd),
              contents := JSON_stringify B root,
              toasts := toasts st @ [success_toast],
              isEditMode := False,
              timers := timers st @ [Some (node_id nd)]\<rparr>"
proof -
  have "save_document B (Some nd) (editedFields st) root = Inr root"
    using assms(2,3,4,6,7) by (rule save_document_skip)
  with assms(1) have "save_document B (selectedNode st) (editedFields st) root = Inr root"
    by simp
  from handleSave_success[OF assms(5) this] assms(1) show ?thesis by simp
qed

text \<open>
  Over \<^verbatim>\<open>{"a": 5}\<close> the selected node shows \<^verbatim>\<open>x: 2\<close> after the commit while
  the stored document is still \<^verbatim>\<open>{"a": 5}\<close>.
\<close>

theorem silent_skip_non_object_witness:
  "walk (JObj [(''a'', JNum (5::int))]) [Key ''a'', Key ''b''] = Inr JUndefined \<and>
   \<not> is_object (JUndefined :: int jsv) \<and>
   toasts (handleSave ecma st_stale) = [success_toast] \<and>
   \<not> isEditMode (handleSave ecma st_stale) \<and>
   contents (handleSave ecma st_stale) = json_stringify (JObj [(''a'', JNum 5)]) \<and>
   selectedNode (handleSave ecma st_stale) =
     Some (node_stale\<lparr>node_text := [row_x\<lparr>row_value := JNum 2\<rparr>]\<rparr>)"
proof -
  have 1: "selectedNode st_stale = Some node_stale" by code_simp
  have 2: "node_path node_stale = Some [Key ''a'', Key ''b'']" by code_simp
  have 3: "[Key ''a'', Key ''b''] \<noteq> []" by simp
  have 4: "\<not> single_value (node_text node_stale)" by code_simp
  have 5: "JSON_parse ecma (json st_stale) = Some (JObj [(''a'', JNum 5)])" by code_simp
  have 6: "walk (JObj [(''a'', JNum (5::int))]) [Key ''a'', Key ''b''] = Inr JUndefined" by code_simp
  have 7: "\<not> is_object (JUndefined :: int jsv)" by code_simp
  have o: "optimistic ecma (editedFields st_stale) node_stale =
             node_stale\<lparr>node_text := [row_x\<lparr>row_value := JNum 2\<rparr>]\<rparr>" by code_simp
  have t: "toasts st_stale = []" by code_simp
  from silent_skip_non_object[OF 1 2 3 4 5 6 7] 6 7 o t show ?thesis
    by (simp add: ecma_def)
qed

text \<open>
  C6. A commit attempt made in edit mode shows exactly one toast. When it is the success
  toast, edit mode has ended (Editing to Viewing); when it is the failure toast, the
  component is still in edit mode and the edit buffer is the one before the attempt.
\<close>

theorem commit_edit_mode:
  assumes "isEditMode st"
  shows "(toasts (handleSave B st) = toasts st @ [success_toast] \<and> \<not> isEditMode (handleSave B st)) \<or>
         (toasts (handleSave B st) = toasts st @ [failure_toast] \<and> isEditMode (handleSave B st) \<and>
          editedFields (handleSave B st) = editedFields st)"
  using assms
  by (auto simp: handleSave_def save_try_def success_toast_def failure_toast_def
           split: option.splits sum.splits)

theorem commit_edit_mode_witness:
  "isEditMode st_root \<and> toasts (handleSave ecma st_root) = [success_toast] \<and>
   \<not> isEditMode (handleSave ecma st_root) \<and>
   isEditMode st_null_parent \<and> toasts (handleSave ecma st_null_parent) = [failure_toast] \<and>
   isEditMode (handleSave ecma st_null_parent) \<and>
   editedFields (handleSave ecma st_null_parent) = editedFields st_null_parent"
proof -
  have 1: "isEditMode st_root" by code_simp
  have 2: "isEditMode st_null_parent" by code_simp
  have a: "toasts (handleSave ecma st_root) = [success_toast]" by code_simp
  have b: "toasts (handleSave ecma st_null_parent) = [failure_toast]" by code_simp
  have "success_toast \<noteq> failure_toast" by (simp add: success_toast_def failure_toast_def)
  with commit_edit_mode[OF 1, of ecma] commit_edit_mode[OF 2, of ecma] 1 2 a b
  show ?thesis by auto
qed


section \<open>What a commit writes\<close>








section \<open>The text of a number is read as the number\<close>
















section \<open>Seeding the buffer and committing it unmodified\<close>

















section \<open>The deferred reconciliation\<close>

lemma sync_callback_miss:
  "find (\<lambda>n. node_id n = i) (nodes st) = None \<Longrightarrow> sync_callback (Some i) st = st"
  by (simp add: sync_callback_def)

lemma sync_callback_hit:
  "find (\<lambda>n. node_id n = i) (nodes st) = Some n \<Longrightarrow>
     sync_callback (Some i) st = st\<lparr>selectedNode := Some n\<rparr>"
  by (simp add: sync_callback_def)

text \<open>
  C7. After a successful commit the selected node is the optimistic node. When the
  rebuilt node collection holds no node with the committed node's id, the deferred
  callback changes nothing: the selected node is still the optimistic node, never
  empty. (With no older callback pending, the callback that fires is this commit's.)
\<close>

theorem reconcile_miss_keeps_optimistic:
  assumes "selectedNode st = Some nd"
    and "toasts (handleSave B st) = toasts st @ [success_toast]"
    and "timers st = []"
    and "find (\<lambda>n. node_id n = node_id nd) ns = None"
  shows "selectedNode (handleSave B st) = Some (optimistic B (editedFields st) nd) \<and>
         selectedNode (fire_timer (setNodes ns (handleSave B st))) =
           Some (optimistic B (editedFields st) nd) \<and>
         selectedNode (fire_timer (setNodes ns (handleSave B st))) \<noteq> None \<and>
         (\<forall>st'. find (\<lambda>n. node_id n = node_id nd) (nodes st') = None \<longrightarrow>
                sync_callback (Some (node_id nd)) st' = st')"
proof -
  have ne: "success_toast \<noteq> failure_toast"
    by (simp add: success_toast_def failure_toast_def)
  from assms(2) ne obtain root doc where
    p: "JSON_parse B (json st) = Some root"
    and d: "save_document B (selectedNode st) (editedFields st) root = Inr doc"
    by (auto simp: handleSave_def save_try_def success_toast_def failure_toast_def
             split: option.splits sum.splits)
  from handleSave_success[OF p d] assms(1,3)
  have h: "handleSave B st =
     st\<lparr>selectedNode := Some (optimistic B (editedFields st) nd),
        contents := JSON_stringify B doc,
        toasts := toasts st @ [success_toast],
        isEditMode := False,
        timers := [Some (node_id nd)]\<rparr>"
    by simp
  have "fire_timer (setNodes ns (handleSave B st)) = (setNodes ns (handleSave B st))\<lparr>timers := []\<rparr>"
    using assms(4) by (simp add: h fire_timer_def setNodes_def sync_callback_def)
  then have "selectedNode (fire_timer (setNodes ns (handleSave B st))) =
               Some (optimistic B (editedFields st) nd)"
    by (simp add: h setNodes_def)
  with h show ?thesis by (simp add: sync_callback_miss)
qed

text \<open>
  The end-to-end example, rebuilt into a collection whose node has another id: the
  selected node stays \<^verbatim>\<open>x: 2\<close>.
\<close>

theorem reconcile_miss_keeps_optimistic_witness:
  "selectedNode st_root = Some node_root \<and>
   toasts (handleSave ecma st_root) = toasts st_root @ [success_toast] \<and>
   timers st_root = [] \<and>
   find (\<lambda>n. node_id n = node_id node_root) [node_renumbered] = None \<and>
   selectedNode (fire_timer (setNodes [node_renumbered] (handleSave ecma st_root))) =
     Some node_root_rebuilt"
proof -
  have 1: "selectedNode st_root = Some node_root" by code_simp
  have 2: "toasts (handleSave ecma st_root) = toasts st_root @ [success_toast]" by code_simp
  have 3: "timers st_root = []" by code_simp
  have 4: "find (\<lambda>n. node_id n = node_id node_root) [node_renumbered] = None" by code_simp
  have 5: "optimistic ecma (editedFields st_root) node_root = node_root_rebuilt" by code_simp
  from reconcile_miss_keeps_optimistic[OF 1 2 3 4]
  have "selectedNode (fire_timer (setNodes [node_renumbered] (handleSave ecma st_root))) =
          Some (optimistic ecma (editedFields st_root) node_root)" by blast
  then have "selectedNode (fire_timer (setNodes [node_renumbered] (handleSave ecma st_root))) =
          Some node_root_rebuilt" unfolding 5 .
  with 1 2 3 4 show ?thesis by blast
qed

lemma handleSave_shown_success:
  assumes "selectedNode st = Some nd"
    and "toasts (handleSave B st) = toasts st @ [success_toast]"
  shows "\<exists>doc. handleSave B st =
           st\<lparr>selectedNode := Some (optimistic B (editedFields st) nd),
              contents := JSON_stringify B doc,
              toasts := toasts st @ [success_toast],
              isEditMode := False,
              timers := timers st @ [Some (node_id nd)]\<rparr>"
proof -
  have ne: "success_toast \<noteq> failure_toast"
    by (simp add: success_toast_def failure_toast_def)
  from assms(2) ne obtain root doc where
    p: "JSON_parse B (json st) = Some root"
    and d: "save_document B (selectedNode st) (editedFields st) root = Inr doc"
    by (auto simp: handleSave_def save_try_def success_toast_def failure_toast_def
             split: option.splits sum.splits)
  from handleSave_success[OF p d] assms(1) show ?thesis by auto
qed

text \<open>
  C2 (as amended). The deferred callback makes no check against the current selection.
  After a successful commit on a node (no older callback pending), let the graph be
  rebuilt and the user select any other node. When the callback fires and the rebuilt
  collection holds a node with the committed node's id, that node becomes the selected
  node, in place of the later selection; when it holds none, the later selection stays.
\<close>

theorem reconcile_overwrites_selection:
  assumes "selectedNode st = Some nd"
    and "toasts (handleSave B st) = toasts st @ [success_toast]"
    and "timers st = []"
  shows "(find (\<lambda>n. node_id n = node_id nd) ns = Some n \<longrightarrow>
            selectedNode (fire_timer (setSelectedNode other (setNodes ns (handleSave B st)))) = Some n) \<and>
         (find (\<lambda>n. node_id n = node_id nd) ns = None \<longrightarrow>
            selectedNode (fire_timer (setSelectedNode other (setNodes ns (handleSave B st)))) = Some other)"
proof -
  from handleSave_shown_success[OF assms(1,2)] assms(3) obtain doc where
    h: "handleSave B st =
           st\<lparr>selectedNode := Some (optimistic B (editedFields st) nd),
              contents := JSON_stringify B doc,
              toasts := toasts st @ [success_toast],
              isEditMode := False,
              timers := [Some (node_id nd)]\<rparr>"
    by auto
  let ?s = "setSelectedNode other (setNodes ns (handleSave B st))"
  have t: "timers ?s = [Some (node_id nd)]" and n: "nodes ?s = ns"
    and sel: "selectedNode ?s = Some other"
    by (simp_all add: h setSelectedNode_def setNodes_def)
  have f: "fire_timer ?s = sync_callback (Some (node_id nd)) (?s\<lparr>timers := []\<rparr>)"
    using t by (simp add: fire_timer_def)
  show ?thesis
  proof (intro conjI impI)
    assume "find (\<lambda>n. node_id n = node_id nd) ns = Some n"
    with n have "find (\<lambda>n. node_id n = node_id nd) (nodes (?s\<lparr>timers := []\<rparr>)) = Some n"
      by simp
    from sync_callback_hit[OF this] f show "selectedNode (fire_timer ?s) = Some n"
      by simp
  next
    assume "find (\<lambda>n. node_id n = node_id nd) ns = None"
    with n have "find (\<lambda>n. node_id n = node_id nd) (nodes (?s\<lparr>timers := []\<rparr>)) = None"
      by simp
    from sync_callback_miss[OF this] f sel show "selectedNode (fire_timer ?s) = Some other"
      by simp
  qed
qed

text \<open>
  The document of two nodes, committed on the root node \<^verbatim>\<open>1\<close>, with node
  \<^verbatim>\<open>2\<close> selected afterwards: rebuilt with node \<^verbatim>\<open>1\<close>, and rebuilt without it.
\<close>

theorem reconcile_overwrites_selection_witness:
  "selectedNode st_two = Some node_top \<and>
   toasts (handleSave ecma st_two) = toasts st_two @ [success_toast] \<and>
   timers st_two = [] \<and>
   find (\<lambda>n. node_id n = node_id node_top) [node_top_rebuilt, node_other] = Some node_top_rebuilt \<and>
   selectedNode (fire_timer (setSelectedNode node_other
      (setNodes [node_top_rebuilt, node_other] (handleSave ecma st_two)))) = Some node_top_rebuilt \<and>
   find (\<lambda>n. node_id n = node_id node_top) [node_other] = None \<and>
   selectedNode (fire_timer (setSelectedNode node_other
      (setNodes [node_other] (handleSave ecma st_two)))) = Some node_other"
proof -
  have 1: "selectedNode st_two = Some node_top" by code_simp
  have 2: "toasts (handleSave ecma st_two) = toasts st_two @ [success_toast]" by code_simp
  have 3: "timers st_two = []" by code_simp
  have 4: "find (\<lambda>n. node_id n = node_id node_top) [node_top_rebuilt, node_other] = Some node_top_rebuilt"
    by code_simp
  have 5: "find (\<lambda>n. node_id n = node_id node_top) [node_other] = None" by code_simp
  from reconcile_overwrites_selection[OF 1 2 3, of "[node_top_rebuilt, node_other]" node_top_rebuilt node_other] 4
  have a: "selectedNode (fire_timer (setSelectedNode node_other
      (setNodes [node_top_rebuilt, node_other] (handleSave ecma st_two)))) = Some node_top_rebuilt"
    by blast
  from reconcile_overwrites_selection[OF 1 2 3, of "[node_other]" node_top node_other] 5
  have b: "selectedNode (fire_timer (setSelectedNode node_other
      (setNodes [node_other] (handleSave ecma st_two)))) = Some node_other"
    by blast
  from 1 2 3 4 5 a b show ?thesis by blast
qed

text \<open>
  C2 as stated fails. After the commit on the root node \<^verbatim>\<open>1\<close> the graph is
  rebuilt and the user selects node \<^verbatim>\<open>2\<close>; the callback then fires and replaces
  that later selection by the rebuilt node \<^verbatim>\<open>1\<close>.
\<close>

theorem reconcile_overwrites_selection_counterexample:
  "toasts (handleSave ecma st_two) = [success_toast] \<and>
   timers (handleSave ecma st_two) = [Some ''1''] \<and>
   selectedNode (setSelectedNode node_other (setNodes [node_top_rebuilt, node_other] (handleSave ecma st_two))) =
     Some node_other \<and>
   node_id node_other \<noteq> ''1'' \<and>
   selectedNode (fire_timer
      (setSelectedNode node_other (setNodes [node_top_rebuilt, node_other] (handleSave ecma st_two)))) =
     Some node_top_rebuilt \<and>
   node_top_rebuilt \<noteq> node_other"
  by code_simp


end
